theory Spec2Isabelle
  imports Complex_Main
begin

chapter \<open>The model\<close>

section \<open>Interactive border (src/js/utils.js, cursorIsOutsideInteractiveBorder)\<close>

text \<open>
  JavaScript numbers are modelled as real numbers: the function only subtracts, adds
  once and compares. Exceptions of the engine are values of \<open>js_error\<close>.
\<close>

datatype js_error = TypeError | ReferenceError | SyntaxError

record rect =
  r_top :: real
  r_bottom :: real
  r_left :: real
  r_right :: real

record mouse_event =
  clientX :: real
  clientY :: real

text \<open>
  The popper element, as far as the function reads it: the attribute \<open>x-placement\<close>
  (\<open>None\<close> when \<open>getAttribute\<close> returns null) and the bounding client rectangle.
\<close>

record popper_el =
  x_placement :: "string option"
  boundingClientRect :: rect

record border_options =
  interactiveBorder :: real
  distance_opt :: real

record exceeds_obj =
  ex_top :: bool
  ex_bottom :: bool
  ex_left :: bool
  ex_right :: bool

text \<open>
  \<open>popper.getAttribute('x-placement').split('-')[0]\<close>: the part before the first
  hyphen; calling \<open>split\<close> on null raises a TypeError.
\<close>

definition getPopperPlacement :: "popper_el \<Rightarrow> js_error + string" where
  "getPopperPlacement popper =
     (case x_placement popper of
        None \<Rightarrow> Inl TypeError
      | Some a \<Rightarrow> Inr (takeWhile (\<lambda>c. c \<noteq> CHR ''-'') a))"

definition cursorIsOutsideInteractiveBorder ::
    "mouse_event \<Rightarrow> popper_el \<Rightarrow> border_options \<Rightarrow> js_error + bool" where
  "cursorIsOutsideInteractiveBorder event popper options =
     (if x_placement popper = None \<or> x_placement popper = Some [] then Inr True
      else
        let x = clientX event;
            y = clientY event;
            ib = interactiveBorder options;
            d = distance_opt options;
            rect = boundingClientRect popper
        in case getPopperPlacement popper of
             Inl e \<Rightarrow> Inl e
           | Inr placement \<Rightarrow>
               let borderWithDistance = ib + d;
                   exceeds = \<lparr> ex_top = r_top rect - y > ib,
                               ex_bottom = y - r_bottom rect > ib,
                               ex_left = r_left rect - x > ib,
                               ex_right = x - r_right rect > ib \<rparr>;
                   exceeds' =
                     (if placement = ''top''
                        then exceeds\<lparr> ex_top := r_top rect - y > borderWithDistance \<rparr>
                      else if placement = ''bottom''
                        then exceeds\<lparr> ex_bottom := y - r_bottom rect > borderWithDistance \<rparr>
                      else if placement = ''left''
                        then exceeds\<lparr> ex_left := r_left rect - x > borderWithDistance \<rparr>
                      else if placement = ''right''
                        then exceeds\<lparr> ex_right := x - r_right rect > borderWithDistance \<rparr>
                      else exceeds)
               in Inr (ex_top exceeds' \<or> ex_bottom exceeds' \<or> ex_left exceeds' \<or> ex_right exceeds'))"

text \<open>The wording of the specification: the four sides, how far the cursor lies beyond
  the box on a side, and the threshold that applies on that side.\<close>

datatype side = Top | Bottom | Left | Right

fun side_name :: "side \<Rightarrow> string" where
  "side_name Top = ''top''"
| "side_name Bottom = ''bottom''"
| "side_name Left = ''left''"
| "side_name Right = ''right''"

fun beyond :: "side \<Rightarrow> rect \<Rightarrow> mouse_event \<Rightarrow> real" where
  "beyond Top r e = r_top r - clientY e"
| "beyond Bottom r e = clientY e - r_bottom r"
| "beyond Left r e = r_left r - clientX e"
| "beyond Right r e = clientX e - r_right r"

definition threshold :: "side \<Rightarrow> side \<Rightarrow> border_options \<Rightarrow> real" where
  "threshold placement s options =
     (if s = placement then interactiveBorder options + distance_opt options
      else interactiveBorder options)"

section \<open>Follow-cursor positioning (website/src/components/Framework.js)\<close>

text \<open>
  Pixel quantities read from the document (\<open>offsetWidth\<close>, \<open>offsetHeight\<close>, \<open>pageX\<close>,
  \<open>pageY\<close>) and the \<open>offset\<close> option are integers. \<open>Math.round(w / 2)\<close> rounds a
  half upwards, which on an integer \<open>w\<close> is \<open>(w + 1) div 2\<close>.
\<close>

definition is_line_terminator :: "char \<Rightarrow> bool" where
  "is_line_terminator c \<longleftrightarrow> c = CHR 0x0A \<or> c = CHR 0x0D"

text \<open>
  \<open>s.replace(/-.+/, '')\<close>: the leftmost hyphen that is followed by at least one
  character other than a line terminator is removed together with the run of such
  characters after it.
\<close>

fun replace_hyphen_rest :: "string \<Rightarrow> string" where
  "replace_hyphen_rest (c # d # cs) =
     (if c = CHR ''-'' \<and> \<not> is_line_terminator d
        then dropWhile (\<lambda>x. \<not> is_line_terminator x) cs
      else c # replace_hyphen_rest (d # cs))"
| "replace_hyphen_rest cs = cs"

text \<open>
  What the listener reads: the type of the last trigger event (\<open>None\<close> when there has
  been none), the \<open>placement\<close> and \<open>offset\<close> options, the popper's \<open>x-placement\<close>
  attribute and size, and the widths of the document element and the body.
\<close>

record follow_ctx =
  lastTriggerEvent_type :: "string option"
  opt_placement :: string
  opt_offset :: int
  popper_x_placement :: "string option"
  popper_offsetWidth :: int
  popper_offsetHeight :: int
  documentElement_offsetWidth :: int
  body_offsetWidth :: int

record page_event =
  pageX :: int
  pageY :: int

definition PADDING :: int where
  "PADDING = 5"

definition pageWidth :: "follow_ctx \<Rightarrow> int" where
  "pageWidth c =
     (if documentElement_offsetWidth c \<noteq> 0 then documentElement_offsetWidth c
      else body_offsetWidth c)"

definition halfPopperWidth :: "follow_ctx \<Rightarrow> int" where
  "halfPopperWidth c = (popper_offsetWidth c + 1) div 2"

definition halfPopperHeight :: "follow_ctx \<Rightarrow> int" where
  "halfPopperHeight c = (popper_offsetHeight c + 1) div 2"

text \<open>The placement the listener works with: the option's, or the popper's own
  \<open>x-placement\<close> attribute once it has a non-empty one (\<open>getPopperPlacement\<close> of the
  bundle, which uses the same \<open>replace\<close>).\<close>

definition follow_placement :: "follow_ctx \<Rightarrow> string" where
  "follow_placement c =
     (case popper_x_placement c of
        None \<Rightarrow> replace_hyphen_rest (opt_placement c)
      | Some a \<Rightarrow> if a = [] then replace_hyphen_rest (opt_placement c)
                  else replace_hyphen_rest a)"

text \<open>
  The listener installed by \<open>_setFollowCursorListener\<close>. It returns \<open>None\<close> when it
  ignores the event (the tooltip was triggered by focus), and otherwise the pair
  \<open>(x, y)\<close> it writes into the popper's transform; a coordinate is \<open>None\<close> where the
  source leaves the variable undefined (a placement outside the four sides). That it
  also remembers the event as the last mouse move is not part of the model.
\<close>

definition followCursorListener ::
    "follow_ctx \<Rightarrow> page_event \<Rightarrow> (int option \<times> int option) option" where
  "followCursorListener c event =
     (if lastTriggerEvent_type c = Some ''focus'' then None
      else
        let pw = pageWidth c;
            hw = halfPopperWidth c;
            hh = halfPopperHeight c;
            offset = opt_offset c;
            px = pageX event;
            py = pageY event;
            placement = follow_placement c;
            xy = (if placement = ''top''
                    then (Some (px - hw + offset), Some (py - 2 * hh))
                  else if placement = ''bottom''
                    then (Some (px - hw + offset), Some (py + 10))
                  else if placement = ''left''
                    then (Some (px - 2 * hw), Some (py - hh + offset))
                  else if placement = ''right''
                    then (Some (px + 5), Some (py - hh + offset))
                  else (None, None));
            isRightOverflowing = px + PADDING + hw + offset > pw;
            isLeftOverflowing = px - PADDING - hw + offset < 0;
            x1 = (if (placement = ''top'' \<or> placement = ''bottom'') \<and> isRightOverflowing
                    then Some (pw - PADDING - 2 * hw) else fst xy);
            x2 = (if (placement = ''top'' \<or> placement = ''bottom'') \<and> isLeftOverflowing
                    then Some PADDING else x1)
        in Some (x2, snd xy))"

text \<open>A page 1000 pixels wide, a popper of 101 by 40 pixels, placement top.\<close>

definition example_follow_ctx :: follow_ctx where
  "example_follow_ctx =
     \<lparr> lastTriggerEvent_type = Some ''mouseenter'', opt_placement = ''top'',
       opt_offset = 0, popper_x_placement = None, popper_offsetWidth = 101,
       popper_offsetHeight = 40, documentElement_offsetWidth = 1000,
       body_offsetWidth = 1000 \<rparr>"

section \<open>Virtual references\<close>

text \<open>
  A virtual reference is a plain object handed to the factory instead of an element. The
  objects that hold attributes and class names are used as dictionaries and are modelled
  as maps from keys to values (their own properties). Of the caller's object only the
  \<open>attributes\<close> property is read; \<open>None\<close> stands for a missing (or otherwise falsy)
  one.
\<close>

type_synonym attrs = "string \<rightharpoonup> string"

record plain_object =
  po_attributes :: "attrs option"

subsection \<open>src/js/reference.js: polyfillElementPrototypeProperties\<close>













subsection \<open>src/js/utils.js: polyfillVirtualReferenceProps\<close>

text \<open>
  This version builds a new object \<open>reference\<close> and leaves the caller's object as it is.
  Its attribute methods do not go through \<open>reference\<close>: \<open>getAttribute\<close> and
  \<open>removeAttribute\<close> use \<open>virtualReference.attributes\<close>, the caller's property, kept
  here as \<open>vr_source_attributes\<close> (the same dictionary as \<open>vr_attributes\<close> when the
  caller supplied one, undefined otherwise), and \<open>setAttribute\<close> assigns through the
  identifier \<open>out\<close>, which no scope of the module declares. The object has no
  \<open>hasAttribute\<close> property.
\<close>

record polyfilled_vr =
  vr_isVirtual :: bool
  vr_attributes :: attrs
  vr_source_attributes :: "attrs option"
  vr_classNames :: "string \<rightharpoonup> bool"

definition polyfillVirtualReferenceProps :: "plain_object \<Rightarrow> polyfilled_vr" where
  "polyfillVirtualReferenceProps virtualReference =
     \<lparr> vr_isVirtual = True,
       vr_attributes = (case po_attributes virtualReference of None \<Rightarrow> Map.empty | Some a \<Rightarrow> a),
       vr_source_attributes = po_attributes virtualReference,
       vr_classNames = Map.empty \<rparr>"

text \<open>\<open>out.attributes[key] = value\<close>: resolving \<open>out\<close> raises a ReferenceError.\<close>

definition setAttribute_vr :: "string \<Rightarrow> string \<Rightarrow> polyfilled_vr \<Rightarrow> js_error + polyfilled_vr" where
  "setAttribute_vr key val r = Inl ReferenceError"

text \<open>Reading or deleting a property of undefined raises a TypeError.\<close>

definition getAttribute_vr :: "string \<Rightarrow> polyfilled_vr \<Rightarrow> js_error + string option" where
  "getAttribute_vr key r =
     (case vr_source_attributes r of None \<Rightarrow> Inl TypeError | Some a \<Rightarrow> Inr (a key))"

definition removeAttribute_vr :: "string \<Rightarrow> polyfilled_vr \<Rightarrow> js_error + polyfilled_vr" where
  "removeAttribute_vr key r =
     (case vr_source_attributes r of
        None \<Rightarrow> Inl TypeError
      | Some a \<Rightarrow> Inr (r\<lparr> vr_attributes := a(key := None),
                          vr_source_attributes := Some (a(key := None)) \<rparr>))"

text \<open>Calling the missing method \<open>hasAttribute\<close> raises a TypeError.\<close>

definition hasAttribute_vr :: "string \<Rightarrow> polyfilled_vr \<Rightarrow> js_error + bool" where
  "hasAttribute_vr key r = Inl TypeError"

definition classList_add_vr :: "string \<Rightarrow> polyfilled_vr \<Rightarrow> js_error + polyfilled_vr" where
  "classList_add_vr key r = Inr (r\<lparr> vr_classNames := (vr_classNames r)(key \<mapsto> True) \<rparr>)"

definition classList_remove_vr :: "string \<Rightarrow> polyfilled_vr \<Rightarrow> js_error + polyfilled_vr" where
  "classList_remove_vr key r = Inr (r\<lparr> vr_classNames := (vr_classNames r)(key := None) \<rparr>)"

definition classList_contains_vr :: "string \<Rightarrow> polyfilled_vr \<Rightarrow> js_error + bool" where
  "classList_contains_vr key r = Inr (vr_classNames r key = Some True)"

section \<open>The factory (part_004: tippy)\<close>

text \<open>
  The factory imports \<open>Defaults\<close>, \<open>createTippy\<close> and \<open>bindGlobalEventListeners\<close> from
  modules that are not among the sources. \<open>Defaults\<close> (its entries) and \<open>createTippy\<close>
  are parameters of the model, as is the document's \<open>querySelectorAll\<close> (\<open>None\<close> when it
  raises on the selector). The page state records whether the global listeners are bound,
  how often they were bound, and every instance \<open>createTippy\<close> has constructed so far.
  An options object is the list of its entries in enumeration order; \<open>None\<close> is an
  omitted argument.
\<close>

datatype ('e, 'o) targets =
    Element 'e
  | PlainObject 'o
  | NodeList "'e list"
  | Array "'e list"
  | Selector string

datatype ('e, 'o) reference = RefElement 'e | RefObject 'o

datatype tippy_error = NotAValidOption string

record 'i page_state =
  eventListenersBound :: bool
  global_bindings :: nat
  created :: "'i list"

record ('e, 'v, 'i) collection =
  c_targets :: "('e, polyfilled_vr) targets"
  c_options :: "string \<rightharpoonup> 'v"
  c_references :: "('e, polyfilled_vr) reference list"
  c_instances :: "'i list"

text \<open>\<open>getArrayOfElements\<close> of src/js/utils.js.\<close>

fun getArrayOfElements ::
    "(string \<Rightarrow> 'e list option) \<Rightarrow> ('e, 'o) targets \<Rightarrow> ('e, 'o) reference list" where
  "getArrayOfElements qsa (Element e) = [RefElement e]"
| "getArrayOfElements qsa (PlainObject ob) = [RefObject ob]"
| "getArrayOfElements qsa (NodeList es) = map RefElement es"
| "getArrayOfElements qsa (Array es) = map RefElement es"
| "getArrayOfElements qsa (Selector s) =
     (case qsa s of None \<Rightarrow> [] | Some es \<Rightarrow> map RefElement es)"

definition supplied_keys :: "(string \<times> 'v) list option \<Rightarrow> string list" where
  "supplied_keys suppliedOptions =
     (case suppliedOptions of None \<Rightarrow> [] | Some kvs \<Rightarrow> map fst kvs)"

text \<open>
  \<open>tippy(targets, suppliedOptions, one)\<close>. The \<open>for ... in\<close> loop throws at the first
  supplied key that is not in \<open>Defaults\<close>; only then are the options merged, a plain
  object polyfilled, the references collected and one instance created per reference.
\<close>

definition tippy ::
    "(string \<times> 'v) list \<Rightarrow> (string \<Rightarrow> 'e list option)
     \<Rightarrow> (('e, polyfilled_vr) reference \<Rightarrow> (string \<rightharpoonup> 'v) \<Rightarrow> 'i)
     \<Rightarrow> ('e, plain_object) targets \<Rightarrow> (string \<times> 'v) list option \<Rightarrow> bool
     \<Rightarrow> 'i page_state \<Rightarrow> (tippy_error + ('e, 'v, 'i) collection) \<times> 'i page_state" where
  "tippy Defaults querySelectorAll createTippy targets suppliedOptions one st =
     (let st1 = (if \<not> eventListenersBound st
                   then st\<lparr> eventListenersBound := True,
                            global_bindings := Suc (global_bindings st) \<rparr>
                 else st)
      in case find (\<lambda>key. key \<notin> fst ` set Defaults) (supplied_keys suppliedOptions) of
           Some key \<Rightarrow> (Inl (NotAValidOption key), st1)
         | None \<Rightarrow>
             let options = map_of Defaults ++
                             map_of (case suppliedOptions of None \<Rightarrow> [] | Some kvs \<Rightarrow> kvs);
                 targets' = map_targets id polyfillVirtualReferenceProps targets;
                 references = getArrayOfElements querySelectorAll targets';
                 instances = map (\<lambda>reference. createTippy reference options)
                               (if one \<and> references \<noteq> [] then [hd references] else references)
             in (Inr \<lparr> c_targets = targets', c_options = options,
                       c_references = references, c_instances = instances \<rparr>,
                 st1\<lparr> created := created st1 @ instances \<rparr>))"



section \<open>Trigger listeners\<close>

text \<open>
  \<open>options.trigger.trim().split(' ')\<close>: \<open>trim\<close> removes white space at both ends (the
  ASCII white space characters are modelled), \<open>split\<close> cuts at every single space and
  keeps empty pieces.
\<close>

definition is_white_space :: "char \<Rightarrow> bool" where
  "is_white_space c \<longleftrightarrow> c \<in> set [CHR 0x20, CHR 0x09, CHR 0x0A, CHR 0x0B, CHR 0x0C, CHR 0x0D]"

definition trim :: "string \<Rightarrow> string" where
  "trim s = rev (dropWhile is_white_space (rev (dropWhile is_white_space s)))"

fun split_space :: "string \<Rightarrow> string list" where
  "split_space [] = [[]]"
| "split_space (c # cs) =
     (if c = CHR '' '' then [] # split_space cs
      else (case split_space cs of
              [] \<Rightarrow> [[c]]
            | w # ws \<Rightarrow> (c # w) # ws))"

subsection \<open>website/src/components/Framework.js: createTrigger\<close>

text \<open>
  A listener is the pair of an event name and a handler. \<open>createTrigger\<close> returns the
  listeners it registered on the reference, in the order of the \<open>addEventListener\<close>
  calls; \<open>browser.supportsTouch\<close> is a parameter.
\<close>

datatype trigger_handler = HandleTrigger | HandleMouseleave | HandleBlur

type_synonym trigger_listener = "string \<times> trigger_handler"

definition createTrigger :: "bool \<Rightarrow> string \<Rightarrow> bool \<Rightarrow> trigger_listener list" where
  "createTrigger supportsTouch eventType touchHold =
     (if eventType = ''manual'' then []
      else
        [(eventType, HandleTrigger)]
        @ (if eventType = ''mouseenter''
             then (if supportsTouch \<and> touchHold
                     then [(''touchstart'', HandleTrigger), (''touchend'', HandleMouseleave)]
                   else [])
                  @ [(''mouseleave'', HandleMouseleave)]
           else [])
        @ (if eventType = ''focus'' then [(''blur'', HandleBlur)] else []))"

text \<open>The listeners of an instance, as \<open>createTooltips\<close> collects them.\<close>

definition instance_listeners :: "bool \<Rightarrow> string \<Rightarrow> bool \<Rightarrow> trigger_listener list" where
  "instance_listeners supportsTouch trigger touchHold =
     foldl (\<lambda>acc eventType. acc @ createTrigger supportsTouch eventType touchHold) []
       (split_space (trim trigger))"

subsection \<open>src/js/utils.js: addEventListeners\<close>

datatype handler = OnTrigger | OnMouseLeave | OnBlur | OnDelegateShow | OnDelegateHide

type_synonym listener = "string \<times> handler"

record listener_options =
  lo_trigger :: string
  lo_target :: "string option"

text \<open>
  The two \<open>switch\<close> statements have no \<open>break\<close>: control falls from each case into the
  next one. Each definition below is one case label followed by the cases after it.
\<close>

definition direct_case_focus :: "bool \<Rightarrow> listener list" where
  "direct_case_focus isIE = [(if isIE then ''focusout'' else ''blur'', OnBlur)]"

definition direct_case_mouseenter :: "bool \<Rightarrow> listener list" where
  "direct_case_mouseenter isIE = [(''mouseleave'', OnMouseLeave)] @ direct_case_focus isIE"

definition delegate_case_click :: "string \<Rightarrow> listener list" where
  "delegate_case_click eventType = [(eventType, OnDelegateShow)]"

definition delegate_case_focus :: "string \<Rightarrow> listener list" where
  "delegate_case_focus eventType =
     [(''focusin'', OnDelegateShow), (''focusout'', OnDelegateHide)] @ delegate_case_click eventType"

definition delegate_case_mouseenter :: "string \<Rightarrow> listener list" where
  "delegate_case_mouseenter eventType =
     [(''mouseover'', OnDelegateShow), (''mouseout'', OnDelegateHide)]
     @ delegate_case_focus eventType"

text \<open>The calls of \<open>on\<close> for one trigger name other than manual.\<close>

definition on_calls :: "bool \<Rightarrow> listener_options \<Rightarrow> string \<Rightarrow> listener list" where
  "on_calls isIE options eventType =
     (if lo_target options = None
        then [(eventType, OnTrigger)]
             @ (if eventType = ''mouseenter'' then direct_case_mouseenter isIE
                else if eventType = ''focus'' then direct_case_focus isIE
                else [])
      else (if eventType = ''mouseenter'' then delegate_case_mouseenter eventType
            else if eventType = ''focus'' then delegate_case_focus eventType
            else if eventType = ''click'' then delegate_case_click eventType
            else []))"

text \<open>
  One round of the \<open>reduce\<close>. The state is the accumulator together with the array
  \<open>listeners\<close>, which is shared by all rounds and holds every registration made so far;
  the accumulator is extended by the whole array.
\<close>

definition add_step ::
    "bool \<Rightarrow> listener_options \<Rightarrow> listener list \<times> listener list \<Rightarrow> string
     \<Rightarrow> listener list \<times> listener list" where
  "add_step isIE options state eventType =
     (case state of (acc, listeners) \<Rightarrow>
        if eventType = ''manual'' then (acc, listeners)
        else let listeners' = listeners @ on_calls isIE options eventType
             in (acc @ listeners', listeners'))"

text \<open>The result is the returned array paired with the registrations made on the
  reference.\<close>

definition addEventListeners ::
    "bool \<Rightarrow> listener_options \<Rightarrow> listener list \<times> listener list" where
  "addEventListeners isIE options =
     foldl (add_step isIE options) ([], []) (split_space (trim (lo_trigger options)))"

section \<open>Declarative attributes (src/js/utils.js: getDataAttributeOptions)\<close>

text \<open>
  The conversion calls three functions of the engine: \<open>Number\<close> (through \<open>isNaN\<close> and
  directly), \<open>parseFloat\<close> and \<open>JSON.parse\<close>. They are parameters of the model. A
  number is NaN, an infinity or a finite value; \<open>JSON_parse\<close> is \<open>None\<close> where
  \<open>JSON.parse\<close> raises a SyntaxError. The keys of \<open>defaults\<close> (a module that is not
  among the sources) are a parameter too, and the reference is given by its
  \<open>getAttribute\<close> (\<open>None\<close> for a missing attribute).
\<close>

datatype 'n js_number = NaN | Infinite bool | Finite 'n











section \<open>The instance (website/src/components/Framework.js: class Tippy)\<close>

text \<open>
  An instance is modelled by the data its methods read and write: \<open>this.state\<close>, the
  private store \<open>this._(key)\<close>, the options, the listeners, the handle of the positioning
  engine, and the parts of the reference and of the popper element that the methods
  touch. Timers are modelled by what is pending: \<open>showTimeout\<close> and \<open>hideTimeout\<close> hold
  the delay of a timer that has been set and has neither fired nor been cleared.
  Callbacks that the methods hand to the positioning engine or defer to a later frame are
  recorded in \<open>deferred\<close> and not run. The \<open>trace\<close> lists, in order, the hooks that were
  called and the moment \<open>state.destroyed\<close> became true. Writes to style properties other
  than \<open>visibility\<close> are left out.
\<close>

datatype number_or_array = Num nat | Arr "nat list"

text \<open>\<open>Array.isArray(duration) ? duration[index] : duration\<close>; an index outside the
  array reads undefined (\<open>None\<close>).\<close>

definition getDuration :: "number_or_array \<Rightarrow> nat \<Rightarrow> nat option" where
  "getDuration duration index =
     (case duration of
        Num n \<Rightarrow> Some n
      | Arr xs \<Rightarrow> if index < length xs then Some (xs ! index) else None)"

text \<open>The same expression, written out in \<open>_enter\<close> and \<open>_leave\<close> for the delay.\<close>

definition delay_at :: "number_or_array \<Rightarrow> nat \<Rightarrow> nat option" where
  "delay_at delay index =
     (case delay of
        Num n \<Rightarrow> Some n
      | Arr xs \<Rightarrow> if index < length xs then Some (xs ! index) else None)"

text \<open>\<open>if (delay)\<close>: undefined and 0 are falsy.\<close>

definition truthy :: "nat option \<Rightarrow> bool" where
  "truthy v \<longleftrightarrow> (case v of None \<Rightarrow> False | Some n \<Rightarrow> n \<noteq> 0)"

text \<open>\<open>s.indexOf(sub) > -1\<close>\<close>

definition includes_str :: "string \<Rightarrow> string \<Rightarrow> bool" where
  "includes_str s sub \<longleftrightarrow>
     list_ex (\<lambda>i. take (length sub) (drop i s) = sub) [0 ..< Suc (length s)]"

text \<open>
  The \<open>wait\<close> option is a function of the caller that receives \<open>show\<close>. The model
  distinguishes a function that calls \<open>show\<close> before it returns from one that keeps it
  for later.
\<close>

datatype wait_hook = WaitInvokesShow | WaitKeepsShow

datatype hook = OnShow | OnHide | Wait

datatype observation = HookRan hook | BecameDestroyed

datatype deferred_task = MountCallback "nat option" | HideTransition "nat option"

record tippy_options =
  o_delay :: number_or_array
  o_duration :: number_or_array
  o_wait :: "wait_hook option"
  o_followCursor :: bool
  o_dynamicTitle :: bool
  o_interactive :: bool
  o_updateDuration :: nat
  o_trigger :: string
  o_touchHold :: bool

record tippy_state =
  destroyed :: bool
  visible :: bool
  enabled :: bool

record private_store =
  isPreparingToShow :: bool
  showTimeout :: "nat option"
  hideTimeout :: "nat option"
  followCursorListener_set :: bool
  mutationObservers :: "bool list"

record popper_instance =
  pi_destroyed :: bool
  pi_eventListeners :: bool
  pi_scheduledUpdates :: nat

text \<open>The reference: whether it is a virtual one (\<open>refObj\<close>), whether the document
  contains it, its attributes, the listeners registered on it, its \<open>_tippy\<close> property,
  the class \<open>tippy-active\<close> and the focus.\<close>

record reference_el =
  refObj :: bool
  in_document :: bool
  in_viewport :: bool
  ref_attributes :: attrs
  registered :: "trigger_listener list"
  has_tippy :: bool
  tippy_active :: bool
  focused :: bool

text \<open>The popper element: \<open>style.visibility\<close>, whether it is in its container, and the
  tooltip's \<open>data-state\<close> and \<open>tippy-notransition\<close> class.\<close>

record popper_node =
  style_visible :: bool
  mounted :: bool
  data_state_visible :: bool
  notransition :: bool

record browser_env =
  usingTouch :: bool
  hasMutationObserver :: bool

record tippy_instance =
  state :: tippy_state
  store :: private_store
  options :: tippy_options
  listeners :: "trigger_listener list"
  popperInstance :: "popper_instance option"
  reference :: reference_el
  popper :: popper_node
  document_mousemove :: bool
  deferred :: "deferred_task list"
  trace :: "observation list"

definition Tippy_enable :: "tippy_instance \<Rightarrow> tippy_instance" where
  "Tippy_enable s = s\<lparr> state := (state s)\<lparr> enabled := True \<rparr> \<rparr>"

definition Tippy_disable :: "tippy_instance \<Rightarrow> tippy_instance" where
  "Tippy_disable s = s\<lparr> state := (state s)\<lparr> enabled := False \<rparr> \<rparr>"

text \<open>\<open>hide(duration)\<close>; the argument is \<open>None\<close> when the call passes none.\<close>

definition Tippy_hide :: "nat option \<Rightarrow> tippy_instance \<Rightarrow> tippy_instance" where
  "Tippy_hide duration s =
     (if destroyed (state s) \<or> \<not> enabled (state s) then s
      else
        let opts = options s;
            s1 = s\<lparr> trace := trace s @ [HookRan OnHide] \<rparr>;
            duration' = getDuration (case duration of Some d \<Rightarrow> Num d
                                      | None \<Rightarrow> o_duration opts) 1;
            s2 = (if o_updateDuration opts = 0
                    then s1\<lparr> popper := (popper s1)\<lparr> notransition := False \<rparr> \<rparr> else s1);
            s3 = (if o_interactive opts
                    then s2\<lparr> reference := (reference s2)\<lparr> tippy_active := False \<rparr> \<rparr> else s2);
            s4 = s3\<lparr> popper := (popper s3)\<lparr> style_visible := False \<rparr>,
                      state := (state s3)\<lparr> visible := False \<rparr> \<rparr>;
            s5 = s4\<lparr> popper := (popper s4)\<lparr> data_state_visible := False \<rparr> \<rparr>;
            s6 = (if o_interactive opts \<and> includes_str (o_trigger opts) ''click''
                       \<and> in_viewport (reference s5)
                    then s5\<lparr> reference := (reference s5)\<lparr> focused := True \<rparr> \<rparr> else s5)
        in s6\<lparr> deferred := deferred s6 @ [HideTransition duration'] \<rparr>)"

text \<open>
  \<open>reference.setAttribute('title', reference.getAttribute('data-original-title'))\<close>. An
  element turns the null of a missing attribute into the string \<open>null\<close>; a virtual
  reference stores the undefined it read, which \<open>getAttribute\<close> then returns as for a
  missing key.
\<close>

definition restore_title :: "reference_el \<Rightarrow> reference_el" where
  "restore_title r =
     (case ref_attributes r ''data-original-title'' of
        Some t \<Rightarrow> r\<lparr> ref_attributes := (ref_attributes r)(''title'' \<mapsto> t) \<rparr>
      | None \<Rightarrow>
          if refObj r then r\<lparr> ref_attributes := (ref_attributes r)(''title'' := None) \<rparr>
          else r\<lparr> ref_attributes := (ref_attributes r)(''title'' \<mapsto> ''null'') \<rparr>)"

definition Tippy_destroy :: "tippy_instance \<Rightarrow> tippy_instance" where
  "Tippy_destroy s =
     (if destroyed (state s) then s
      else
        let s1 = (if visible (state s) then Tippy_hide (Some 0) s else s);
            s2 = s1\<lparr> reference := (reference s1)\<lparr> registered :=
                        filter (\<lambda>l. l \<notin> set (listeners s1)) (registered (reference s1)) \<rparr> \<rparr>;
            s3 = s2\<lparr> reference := restore_title (reference s2) \<rparr>;
            s4 = s3\<lparr> reference := (reference s3)\<lparr> has_tippy := False,
                        ref_attributes := (ref_attributes (reference s3))
                          (''data-original-title'' := None, ''data-tippy'' := None) \<rparr> \<rparr>;
            s5 = (case popperInstance s4 of
                    None \<Rightarrow> s4
                  | Some p \<Rightarrow> s4\<lparr> popperInstance := Some (p\<lparr> pi_destroyed := True \<rparr>) \<rparr>);
            s6 = s5\<lparr> store := (store s5)\<lparr> mutationObservers :=
                        map (\<lambda>_. False) (mutationObservers (store s5)) \<rparr> \<rparr>
        in s6\<lparr> state := (state s6)\<lparr> destroyed := True \<rparr>,
               trace := trace s6 @ [BecameDestroyed] \<rparr>)"

text \<open>
  \<open>_mount(callback)\<close>: creates the positioning handle on first use (which also adds a
  mutation observer where the browser has them), otherwise schedules an update; the
  callback waits for the engine's next create or update pass; the popper is appended to
  its container.
\<close>

definition Tippy_mount :: "browser_env \<Rightarrow> nat option \<Rightarrow> tippy_instance \<Rightarrow> tippy_instance" where
  "Tippy_mount browser duration s =
     (let s1 = (case popperInstance s of
                  None \<Rightarrow>
                    s\<lparr> store := (store s)\<lparr> mutationObservers :=
                           (if hasMutationObserver browser
                              then mutationObservers (store s) @ [True]
                            else mutationObservers (store s)) \<rparr>,
                       popperInstance := Some \<lparr> pi_destroyed = False, pi_eventListeners = True,
                                                 pi_scheduledUpdates = 0 \<rparr> \<rparr>
                | Some p \<Rightarrow>
                    s\<lparr> popperInstance := Some (p\<lparr>
                         pi_scheduledUpdates := Suc (pi_scheduledUpdates p),
                         pi_eventListeners :=
                           (if \<not> o_followCursor (options s) \<or> usingTouch browser then True
                            else pi_eventListeners p) \<rparr>) \<rparr>)
      in s1\<lparr> deferred := deferred s1 @ [MountCallback duration],
             popper := (popper s1)\<lparr> mounted := True \<rparr> \<rparr>)"

text \<open>\<open>show(duration)\<close>\<close>

definition Tippy_show :: "browser_env \<Rightarrow> nat option \<Rightarrow> tippy_instance \<Rightarrow> tippy_instance" where
  "Tippy_show browser duration s =
     (if destroyed (state s) \<or> \<not> enabled (state s) then s
      else if o_dynamicTitle (options s)
              \<and> (case ref_attributes (reference s) ''data-original-title'' of
                    None \<Rightarrow> True | Some t \<Rightarrow> t = [])
        then s
      else if \<not> refObj (reference s) \<and> \<not> in_document (reference s) then Tippy_destroy s
      else
        let s1 = s\<lparr> trace := trace s @ [HookRan OnShow] \<rparr>;
            duration' = getDuration (case duration of Some d \<Rightarrow> Num d
                                      | None \<Rightarrow> o_duration (options s)) 0;
            s2 = s1\<lparr> popper := (popper s1)\<lparr> style_visible := True \<rparr>,
                      state := (state s1)\<lparr> visible := True \<rparr> \<rparr>
        in Tippy_mount browser duration' s2)"

text \<open>\<open>_clearDelayTimeouts\<close>, \<open>_enter\<close> and \<open>_leave\<close>\<close>

definition Tippy_clearDelayTimeouts :: "tippy_instance \<Rightarrow> tippy_instance" where
  "Tippy_clearDelayTimeouts s =
     s\<lparr> store := (store s)\<lparr> showTimeout := None, hideTimeout := None \<rparr> \<rparr>"

definition Tippy_enter :: "browser_env \<Rightarrow> tippy_instance \<Rightarrow> tippy_instance" where
  "Tippy_enter browser s =
     (let s1 = Tippy_clearDelayTimeouts s
      in if visible (state s1) then s1
         else
           let s2 = s1\<lparr> store := (store s1)\<lparr> isPreparingToShow := True \<rparr> \<rparr>
           in case o_wait (options s2) of
                Some w \<Rightarrow>
                  (let s3 = s2\<lparr> trace := trace s2 @ [HookRan Wait] \<rparr>
                   in case w of
                        WaitInvokesShow \<Rightarrow> Tippy_show browser None s3
                      | WaitKeepsShow \<Rightarrow> s3)
              | None \<Rightarrow>
                  let s3 = (if o_followCursor (options s2) \<and> \<not> usingTouch browser
                              then s2\<lparr> store := (store s2)\<lparr> followCursorListener_set := True \<rparr>,
                                       document_mousemove := True \<rparr>
                            else s2);
                      delay = delay_at (o_delay (options s3)) 0
                  in if truthy delay then s3\<lparr> store := (store s3)\<lparr> showTimeout := delay \<rparr> \<rparr>
                     else Tippy_show browser None s3)"

definition Tippy_leave :: "tippy_instance \<Rightarrow> tippy_instance" where
  "Tippy_leave s =
     (let s1 = Tippy_clearDelayTimeouts s
      in if \<not> visible (state s1) then s1
         else
           let s2 = s1\<lparr> store := (store s1)\<lparr> isPreparingToShow := False \<rparr> \<rparr>;
               delay = delay_at (o_delay (options s2)) 1
           in if truthy delay then s2\<lparr> store := (store s2)\<lparr> hideTimeout := delay \<rparr> \<rparr>
              else Tippy_hide None s2)"

text \<open>
  A pending timer fires: its callback runs and the timer is pending no longer. Without
  a pending timer nothing can fire (\<open>None\<close>).
\<close>

definition fire_showTimeout :: "browser_env \<Rightarrow> tippy_instance \<Rightarrow> tippy_instance option" where
  "fire_showTimeout browser s =
     (case showTimeout (store s) of
        None \<Rightarrow> None
      | Some d \<Rightarrow>
          Some (Tippy_show browser None (s\<lparr> store := (store s)\<lparr> showTimeout := None \<rparr> \<rparr>)))"

definition fire_hideTimeout :: "tippy_instance \<Rightarrow> tippy_instance option" where
  "fire_hideTimeout s =
     (case hideTimeout (store s) of
        None \<Rightarrow> None
      | Some d \<Rightarrow>
          let s1 = s\<lparr> store := (store s)\<lparr> hideTimeout := None \<rparr> \<rparr>
          in Some (if \<not> visible (state s1) then s1 else Tippy_hide None s1))"

text \<open>\<open>removeTitle\<close>, and the instance \<open>createTooltips\<close> builds for a reference: the
  state the constructor sets, the listeners of the triggers, the reference marked with
  \<open>data-tippy\<close> and its title moved away.\<close>

definition removeTitle :: "attrs \<Rightarrow> attrs" where
  "removeTitle a =
     (let a1 = (case a ''title'' of
                  None \<Rightarrow> a
                | Some t \<Rightarrow> if t = [] then a else a(''data-original-title'' \<mapsto> t))
      in a1(''title'' := None))"

definition created_instance ::
   "bool \<Rightarrow> tippy_options \<Rightarrow> bool \<Rightarrow> attrs \<Rightarrow> tippy_instance" where
  "created_instance supportsTouch opts virtual attrs0 =
     (let ls = instance_listeners supportsTouch (o_trigger opts) (o_touchHold opts)
      in \<lparr> state = \<lparr> destroyed = False, visible = False, enabled = True \<rparr>,
           store = \<lparr> isPreparingToShow = False, showTimeout = None, hideTimeout = None,
                     followCursorListener_set = False, mutationObservers = [] \<rparr>,
           options = opts,
           listeners = ls,
           popperInstance = None,
           reference = \<lparr> refObj = virtual, in_document = \<not> virtual, in_viewport = \<not> virtual,
                         ref_attributes = removeTitle (attrs0(''data-tippy'' \<mapsto> [])),
                         registered = (if virtual then [] else ls),
                         has_tippy = True, tippy_active = False, focused = False \<rparr>,
           popper = \<lparr> style_visible = False, mounted = False, data_state_visible = False,
                      notransition = False \<rparr>,
           document_mousemove = False,
           deferred = [],
           trace = [] \<rparr>)"

subsection \<open>Examples\<close>

text \<open>
  An element with the title \<open>Hello\<close> and a delay of 100 ms; the same with a \<open>wait\<close>
  function that calls \<open>show\<close> at once; the first example shown and then disabled; the
  removal of a reference from its document; and an element without a title under the
  \<open>dynamicTitle\<close> option.
\<close>

definition example_options :: tippy_options where
  "example_options =
     \<lparr> o_delay = Num 100, o_duration = Arr [350, 300], o_wait = None, o_followCursor = False,
       o_dynamicTitle = False, o_interactive = False, o_updateDuration = 350,
       o_trigger = ''mouseenter focus'', o_touchHold = False \<rparr>"

definition example_browser :: browser_env where
  "example_browser = \<lparr> usingTouch = False, hasMutationObserver = True \<rparr>"

definition example_instance :: tippy_instance where
  "example_instance =
     created_instance False example_options False [''title'' \<mapsto> ''Hello'']"

definition example_waiting_instance :: tippy_instance where
  "example_waiting_instance =
     created_instance False (example_options\<lparr> o_wait := Some WaitInvokesShow \<rparr>) False
       [''title'' \<mapsto> ''Hello'']"

definition example_visible_disabled :: tippy_instance where
  "example_visible_disabled =
     Tippy_disable (Tippy_show example_browser None example_instance)"

definition detach :: "tippy_instance \<Rightarrow> tippy_instance" where
  "detach s = s\<lparr> reference := (reference s)\<lparr> in_document := False \<rparr> \<rparr>"

definition example_untitled_instance :: tippy_instance where
  "example_untitled_instance =
     created_instance False (example_options\<lparr> o_dynamicTitle := True \<rparr>) False Map.empty"

chapter \<open>Properties\<close>

section \<open>The interactive border\<close>

lemma side_exhaust_ex: "(\<exists>s. P s) \<longleftrightarrow> P Top \<or> P Bottom \<or> P Left \<or> P Right"
  by (metis side.exhaust)

text \<open>
  Claim C7. With a placement attribute whose base placement is one of top, bottom, left,
  right, the predicate is true exactly when on some side the cursor lies further beyond
  the box than the border width, where the side of the placement uses border width plus
  distance instead. Without a placement attribute (null or empty) the predicate is true.
\<close>

theorem cursor_outside_iff:
  "(x_placement pop = Some a \<and> a \<noteq> [] \<and> takeWhile (\<lambda>c. c \<noteq> CHR ''-'') a = side_name p
      \<longrightarrow> cursorIsOutsideInteractiveBorder ev pop opts =
            Inr (\<exists>s. beyond s (boundingClientRect pop) ev > threshold p s opts))
   \<and> (x_placement pop = None \<or> x_placement pop = Some []
      \<longrightarrow> cursorIsOutsideInteractiveBorder ev pop opts = Inr True)"
  by (cases p)
     (auto simp: cursorIsOutsideInteractiveBorder_def getPopperPlacement_def Let_def
                 side_exhaust_ex threshold_def)

theorem cursor_outside_iff_witness:
  "cursorIsOutsideInteractiveBorder \<lparr> clientX = 50, clientY = 90 \<rparr>
       \<lparr> x_placement = Some ''top-start'',
         boundingClientRect = \<lparr> r_top = 100, r_bottom = 140, r_left = 0, r_right = 200 \<rparr> \<rparr>
       \<lparr> interactiveBorder = 2, distance_opt = 10 \<rparr> = Inr False
   \<and> cursorIsOutsideInteractiveBorder \<lparr> clientX = 50, clientY = 90 \<rparr>
       \<lparr> x_placement = None,
         boundingClientRect = \<lparr> r_top = 100, r_bottom = 140, r_left = 0, r_right = 200 \<rparr> \<rparr>
       \<lparr> interactiveBorder = 2, distance_opt = 10 \<rparr> = Inr True"
  using cursor_outside_iff [of
      "\<lparr> x_placement = Some ''top-start'',
         boundingClientRect = \<lparr> r_top = 100, r_bottom = 140, r_left = 0, r_right = 200 \<rparr> \<rparr>"
      "''top-start''" Top "\<lparr> clientX = 50, clientY = 90 \<rparr>"
      "\<lparr> interactiveBorder = 2, distance_opt = 10 \<rparr>"]
    cursor_outside_iff [of
      "\<lparr> x_placement = None,
         boundingClientRect = \<lparr> r_top = 100, r_bottom = 140, r_left = 0, r_right = 200 \<rparr> \<rparr>"
      "''x''" Top "\<lparr> clientX = 50, clientY = 90 \<rparr>"
      "\<lparr> interactiveBorder = 2, distance_opt = 10 \<rparr>"]
  by (simp add: side_exhaust_ex threshold_def)

section \<open>Follow-cursor positions\<close>

lemma half_width_covers: "popper_offsetWidth c \<le> 2 * halfPopperWidth c"
  unfolding halfPopperWidth_def by presburger

text \<open>
  Claim C8 as stated fails for the placements left and right, which the listener does
  not clamp: with placement right and the cursor at page-x 990 on the 1000 pixel page,
  the position is 995, beyond \<open>pageWidth - PADDING - width = 894\<close>. It also fails where
  the interval is empty: with placement top on a page of 100 pixels, narrower than the
  popper, the position is \<open>PADDING\<close>, beyond \<open>pageWidth - PADDING - width = -6\<close>.
\<close>

theorem follow_cursor_right_counterexample:
  "followCursorListener (example_follow_ctx\<lparr> opt_placement := ''right'' \<rparr>)
       \<lparr> pageX = 990, pageY = 300 \<rparr> = Some (Some 995, Some 280)
   \<and> \<not> (995 \<le> pageWidth (example_follow_ctx\<lparr> opt_placement := ''right'' \<rparr>) - PADDING
              - popper_offsetWidth (example_follow_ctx\<lparr> opt_placement := ''right'' \<rparr>))
   \<and> followCursorListener (example_follow_ctx\<lparr> documentElement_offsetWidth := 100 \<rparr>)
       \<lparr> pageX = 50, pageY = 300 \<rparr> = Some (Some 5, Some 260)
   \<and> \<not> (5 \<le> pageWidth (example_follow_ctx\<lparr> documentElement_offsetWidth := 100 \<rparr>) - PADDING
              - popper_offsetWidth (example_follow_ctx\<lparr> documentElement_offsetWidth := 100 \<rparr>))"
  by (simp add: example_follow_ctx_def followCursorListener_def follow_placement_def
      pageWidth_def halfPopperWidth_def halfPopperHeight_def PADDING_def Let_def)

text \<open>
  Claim C8, amended. For a top or bottom placement, on every event the listener handles,
  and on a page at least as wide as the padded popper
  (\<open>2 * PADDING + 2 * round (width / 2)\<close>), the horizontal position lies between
  \<open>PADDING\<close> and \<open>pageWidth - PADDING - 2 * round (width / 2)\<close>, hence also within
  \<open>[PADDING, pageWidth - PADDING - width]\<close>.
\<close>

theorem follow_cursor_x_clamped:
  assumes "follow_placement c = ''top'' \<or> follow_placement c = ''bottom''"
    and "lastTriggerEvent_type c \<noteq> Some ''focus''"
    and "2 * PADDING + 2 * halfPopperWidth c \<le> pageWidth c"
  shows "\<exists>x y. followCursorListener c event = Some (Some x, y)
           \<and> PADDING \<le> x
           \<and> x \<le> pageWidth c - PADDING - 2 * halfPopperWidth c
           \<and> x \<le> pageWidth c - PADDING - popper_offsetWidth c"
proof -
  note w = half_width_covers [of c]
  from assms(1) show ?thesis
  proof
    assume "follow_placement c = ''top''"
    with assms(2,3) w show ?thesis
      by (auto simp: followCursorListener_def Let_def)
  next
    assume "follow_placement c = ''bottom''"
    with assms(2,3) w show ?thesis
      by (auto simp: followCursorListener_def Let_def)
  qed
qed

theorem follow_cursor_x_clamped_witness:
  "followCursorListener example_follow_ctx \<lparr> pageX = 990, pageY = 300 \<rparr>
     = Some (Some 893, Some 260)
   \<and> PADDING \<le> 893
   \<and> 893 \<le> pageWidth example_follow_ctx - PADDING - popper_offsetWidth example_follow_ctx"
  using follow_cursor_x_clamped [of example_follow_ctx "\<lparr> pageX = 990, pageY = 300 \<rparr>"]
  by (simp add: example_follow_ctx_def followCursorListener_def follow_placement_def
      pageWidth_def halfPopperWidth_def halfPopperHeight_def PADDING_def Let_def)

section \<open>Operations on virtual references\<close>


text \<open>
  Claim C9 does not hold of \<open>polyfillVirtualReferenceProps\<close>, the polyfill the factory
  calls: on the polyfilled empty object \<open>{}\<close>, \<open>setAttribute\<close> raises a ReferenceError
  and \<open>getAttribute\<close>, \<open>removeAttribute\<close> and \<open>hasAttribute\<close> raise a TypeError. The
  object does carry \<open>isVirtual = true\<close>.
\<close>

theorem virtual_reference_props_raise:
  "setAttribute_vr ''title'' ''Hello'' (polyfillVirtualReferenceProps \<lparr> po_attributes = None \<rparr>)
     = Inl ReferenceError
   \<and> getAttribute_vr ''title'' (polyfillVirtualReferenceProps \<lparr> po_attributes = None \<rparr>)
     = Inl TypeError
   \<and> removeAttribute_vr ''title'' (polyfillVirtualReferenceProps \<lparr> po_attributes = None \<rparr>)
     = Inl TypeError
   \<and> hasAttribute_vr ''title'' (polyfillVirtualReferenceProps \<lparr> po_attributes = None \<rparr>)
     = Inl TypeError
   \<and> vr_isVirtual (polyfillVirtualReferenceProps \<lparr> po_attributes = None \<rparr>)"
  by (simp add: setAttribute_vr_def getAttribute_vr_def removeAttribute_vr_def
      hasAttribute_vr_def polyfillVirtualReferenceProps_def)

section \<open>Validation of the supplied options\<close>



text \<open>
  With valid options, a plain object yields exactly one reference, the polyfilled object
  flagged \<open>isVirtual\<close>, and one instance.
\<close>

lemma tippy_virtual_reference:
  assumes "find (\<lambda>key. key \<notin> fst ` set Defaults) (supplied_keys suppliedOptions) = None"
  shows "\<exists>col st'. tippy Defaults qsa createTippy (PlainObject vr) suppliedOptions one st
                      = (Inr col, st')
           \<and> c_references col = [RefObject (polyfillVirtualReferenceProps vr)]
           \<and> length (c_instances col) = 1
           \<and> vr_isVirtual (polyfillVirtualReferenceProps vr)"
  using assms by (simp add: tippy_def Let_def polyfillVirtualReferenceProps_def)

section \<open>Registered listeners\<close>

text \<open>
  \<open>createTrigger\<close> registers what claim C6 lists: nothing for manual; the trigger handler
  and one mouseleave handler for mouseenter, with the touch pair exactly when touch is
  supported and touch-hold is set; the trigger handler and one blur handler for focus.
\<close>

lemma createTrigger_listeners:
  "createTrigger supportsTouch ''manual'' touchHold = []
   \<and> createTrigger supportsTouch ''mouseenter'' touchHold =
       (if supportsTouch \<and> touchHold
          then [(''mouseenter'', HandleTrigger), (''touchstart'', HandleTrigger),
                (''touchend'', HandleMouseleave), (''mouseleave'', HandleMouseleave)]
        else [(''mouseenter'', HandleTrigger), (''mouseleave'', HandleMouseleave)])
   \<and> createTrigger supportsTouch ''focus'' touchHold =
       [(''focus'', HandleTrigger), (''blur'', HandleBlur)]"
  by (simp add: createTrigger_def)

text \<open>In \<open>createTrigger\<close> the blur handler belongs to focus alone and the mouseleave
  handler to mouseenter alone.\<close>

lemma createTrigger_owner:
  assumes "(ev, h) \<in> set (createTrigger supportsTouch eventType touchHold)"
  shows "(h = HandleBlur \<longrightarrow> eventType = ''focus'' \<and> ev = ''blur'')
       \<and> (h = HandleMouseleave \<longrightarrow>
             eventType = ''mouseenter'' \<and> (ev = ''mouseleave'' \<or> ev = ''touchend''))
       \<and> (h = HandleTrigger \<longrightarrow>
             ev = eventType \<or> (eventType = ''mouseenter'' \<and> ev = ''touchstart''))"
  using assms by (auto simp: createTrigger_def split: if_splits)

text \<open>
  Claim C6 does not hold of \<open>addEventListeners\<close>: in direct mode the trigger mouseenter
  registers, besides the trigger handler and the mouseleave handler, the blur handler of
  the focus trigger.
\<close>

theorem addEventListeners_mouseenter_registers_blur:
  "addEventListeners False \<lparr> lo_trigger = ''mouseenter'', lo_target = None \<rparr> =
     ([(''mouseenter'', OnTrigger), (''mouseleave'', OnMouseLeave), (''blur'', OnBlur)],
      [(''mouseenter'', OnTrigger), (''mouseleave'', OnMouseLeave), (''blur'', OnBlur)])"
  by (simp add: addEventListeners_def add_step_def on_calls_def direct_case_mouseenter_def
      direct_case_focus_def trim_def is_white_space_def Let_def)

section \<open>Conversion of declarative attributes\<close>

subsection \<open>The reducer and the fold\<close>






subsection \<open>What an attribute converts to\<close>





section \<open>The state machine of an instance\<close>

subsection \<open>Show request followed by hide request\<close>

text \<open>
  Claim C1 as stated fails for an instance with a \<open>wait\<close> function: \<open>_enter\<close> hands
  \<open>show\<close> to it and sets no timer. When the function calls \<open>show\<close> at once, the
  instance is visible after the show request, and the hide request that follows only
  arms the hide timer: the instance is still visible.
\<close>

theorem enter_then_leave_wait_counterexample:
  "\<not> visible (state example_waiting_instance)
   \<and> delay_at (o_delay (options example_waiting_instance)) 0 = Some 100
   \<and> showTimeout (store (Tippy_enter example_browser example_waiting_instance)) = None
   \<and> visible (state (Tippy_leave (Tippy_enter example_browser example_waiting_instance)))
   \<and> trace (Tippy_leave (Tippy_enter example_browser example_waiting_instance))
       = [HookRan Wait, HookRan OnShow]"
  by (simp add: example_waiting_instance_def created_instance_def example_options_def
      Tippy_enter_def Tippy_leave_def Tippy_clearDelayTimeouts_def Tippy_show_def
      Tippy_mount_def delay_at_def truthy_def removeTitle_def Let_def)

text \<open>
  Claim C1, amended. For an instance without a \<open>wait\<close> function, with a non-zero
  delay-in, that is not visible when the show request arrives: the show request arms the
  show timer with delay-in; after the hide request that follows, the instance is not
  visible and no show timer is pending, so none can fire; no hook has run in between.
\<close>

theorem enter_then_leave_cancels_show:
  assumes "\<not> visible (state s)" and "o_wait (options s) = None"
    and "truthy (delay_at (o_delay (options s)) 0)"
  shows "showTimeout (store (Tippy_enter b s)) = delay_at (o_delay (options s)) 0
       \<and> \<not> visible (state (Tippy_leave (Tippy_enter b s)))
       \<and> showTimeout (store (Tippy_leave (Tippy_enter b s))) = None
       \<and> fire_showTimeout b (Tippy_leave (Tippy_enter b s)) = None
       \<and> trace (Tippy_leave (Tippy_enter b s)) = trace s"
  using assms
  by (simp add: Tippy_enter_def Tippy_leave_def Tippy_clearDelayTimeouts_def
      fire_showTimeout_def Let_def)

theorem enter_then_leave_cancels_show_witness:
  "showTimeout (store (Tippy_enter example_browser example_instance)) = Some 100
   \<and> \<not> visible (state (Tippy_leave (Tippy_enter example_browser example_instance)))
   \<and> showTimeout (store (Tippy_leave (Tippy_enter example_browser example_instance))) = None
   \<and> fire_showTimeout example_browser
         (Tippy_leave (Tippy_enter example_browser example_instance)) = None"
  using enter_then_leave_cancels_show [of example_instance example_browser]
  by (simp add: example_instance_def created_instance_def example_options_def truthy_def
      delay_at_def Let_def)

subsection \<open>Destroy\<close>

text \<open>\<open>destroy\<close> is idempotent.\<close>

lemma destroy_idempotent: "Tippy_destroy (Tippy_destroy s) = Tippy_destroy s"
  by (simp add: Tippy_destroy_def Let_def)

lemma hide_effect:
  assumes "\<not> destroyed (state s)" and "enabled (state s)"
  shows "trace (Tippy_hide d s) = trace s @ [HookRan OnHide]"
    and "\<not> visible (state (Tippy_hide d s))"
    and "\<not> destroyed (state (Tippy_hide d s))"
    and "mounted (popper (Tippy_hide d s)) = mounted (popper s)"
  using assms by (simp_all add: Tippy_hide_def Let_def)

lemma destroy_effect:
  assumes "\<not> destroyed (state s)"
  shows "trace (Tippy_destroy s) =
           trace (if visible (state s) then Tippy_hide (Some 0) s else s) @ [BecameDestroyed]"
    and "visible (state (Tippy_destroy s)) =
           visible (state (if visible (state s) then Tippy_hide (Some 0) s else s))"
    and "destroyed (state (Tippy_destroy s))"
    and "mounted (popper (Tippy_destroy s)) =
           mounted (popper (if visible (state s) then Tippy_hide (Some 0) s else s))"
  using assms by (simp_all add: Tippy_destroy_def Let_def split: option.splits)

text \<open>On a visible and enabled instance \<open>destroy\<close> runs the \<open>onHide\<close> hook and
  afterwards marks the instance destroyed.\<close>

lemma destroy_visible_enabled:
  assumes "visible (state s)" and "enabled (state s)" and "\<not> destroyed (state s)"
  shows "trace (Tippy_destroy s) = trace s @ [HookRan OnHide, BecameDestroyed]
       \<and> destroyed (state (Tippy_destroy s)) \<and> \<not> visible (state (Tippy_destroy s))"
  using assms destroy_effect(1-3) [of s] hide_effect(1,2) [of s "Some 0"] by simp

text \<open>
  Claim C2 does not hold of a visible instance that has been disabled: \<open>destroy\<close> calls
  \<open>hide(0)\<close>, which returns at once because the instance is disabled. The \<open>onHide\<close>
  hook does not run, and the instance ends destroyed while still visible, its popper
  still mounted.
\<close>

theorem destroy_visible_disabled_skips_hide:
  "visible (state example_visible_disabled) \<and> \<not> destroyed (state example_visible_disabled)
   \<and> trace example_visible_disabled = [HookRan OnShow]
   \<and> trace (Tippy_destroy example_visible_disabled) = [HookRan OnShow, BecameDestroyed]
   \<and> destroyed (state (Tippy_destroy example_visible_disabled))
   \<and> visible (state (Tippy_destroy example_visible_disabled))
   \<and> mounted (popper (Tippy_destroy example_visible_disabled))"
  by (simp add: example_visible_disabled_def example_instance_def created_instance_def
      example_options_def Tippy_disable_def Tippy_show_def Tippy_mount_def Tippy_destroy_def
      Tippy_hide_def removeTitle_def Let_def)

subsection \<open>Show on a detached reference\<close>

text \<open>
  Claim C4 as stated fails for a disabled instance: \<open>show\<close> returns before it looks at
  the reference, so the instance on a detached element is not destroyed. The same
  happens to an enabled instance with the \<open>dynamicTitle\<close> option whose reference has no
  title yet.
\<close>

theorem show_detached_disabled_counterexample:
  "\<not> refObj (reference (detach (Tippy_disable example_instance)))
   \<and> \<not> in_document (reference (detach (Tippy_disable example_instance)))
   \<and> \<not> destroyed (state (Tippy_show example_browser None
                            (detach (Tippy_disable example_instance))))
   \<and> \<not> refObj (reference (detach example_untitled_instance))
   \<and> \<not> in_document (reference (detach example_untitled_instance))
   \<and> enabled (state (detach example_untitled_instance))
   \<and> \<not> destroyed (state (Tippy_show example_browser None (detach example_untitled_instance)))"
  by (simp add: detach_def example_instance_def example_untitled_instance_def
      created_instance_def example_options_def removeTitle_def
      Tippy_disable_def Tippy_show_def Let_def)

text \<open>
  Claim C4, amended. For an instance that is enabled and not destroyed (and that, with the
  \<open>dynamicTitle\<close> option, has a non-empty original title), whose reference is not virtual
  and not in the document: \<open>show\<close> does what \<open>destroy\<close> does. The instance ends
  destroyed and not visible, the \<open>onShow\<close> hook does not run and the popper is not
  mounted by the call.
\<close>

theorem show_detached_destroys:
  assumes "\<not> destroyed (state s)" and "enabled (state s)"
    and "\<not> refObj (reference s)" and "\<not> in_document (reference s)"
    and "o_dynamicTitle (options s) \<longrightarrow>
           (\<exists>t. ref_attributes (reference s) ''data-original-title'' = Some t \<and> t \<noteq> [])"
  shows "Tippy_show b d s = Tippy_destroy s
       \<and> destroyed (state (Tippy_show b d s))
       \<and> \<not> visible (state (Tippy_show b d s))
       \<and> HookRan OnShow \<notin> set (drop (length (trace s)) (trace (Tippy_show b d s)))
       \<and> mounted (popper (Tippy_show b d s)) = mounted (popper s)"
proof -
  from assms have eq: "Tippy_show b d s = Tippy_destroy s"
    by (auto simp: Tippy_show_def split: option.splits)
  from destroy_effect [OF assms(1)] hide_effect [OF assms(1,2), of "Some 0"]
  have "destroyed (state (Tippy_destroy s))" "\<not> visible (state (Tippy_destroy s))"
    "HookRan OnShow \<notin> set (drop (length (trace s)) (trace (Tippy_destroy s)))"
    "mounted (popper (Tippy_destroy s)) = mounted (popper s)"
    by (simp_all split: if_splits)
  with eq show ?thesis by simp
qed

theorem show_detached_destroys_witness:
  "destroyed (state (Tippy_show example_browser None (detach example_instance)))
   \<and> \<not> visible (state (Tippy_show example_browser None (detach example_instance)))
   \<and> trace (Tippy_show example_browser None (detach example_instance)) = [BecameDestroyed]"
  using show_detached_destroys [of "detach example_instance" example_browser None]
  by (simp add: detach_def example_instance_def created_instance_def example_options_def
      Tippy_destroy_def Let_def)

end
